theory Spec2Isabelle
  imports Complex_Main
begin

section \<open>Data model (app/src/types.ts)\<close>

text \<open>
  JavaScript strings are modelled as HOL strings: one \<^typ>\<open>char\<close> stands for one code
  unit, \<open>.length\<close> is \<^const>\<open>length\<close> and \<open>substring(0, n)\<close> is \<^term>\<open>take n\<close>.
  A value of type \<open>any\<close> (the values of a record's open metadata object) is a JSON value.
  An object used as a dictionary (\<open>Record<string, any>\<close>) is a map from keys to values;
  an absent \<open>metadata\<close> is the empty map, which is what spreading \<open>undefined\<close> gives.
\<close>

datatype json =
    JString string
  | JNumber int
  | JBool bool
  | JNull
  | JArray "json list"
  | JObject "(string \<times> json) list"

record PromptExample =
  prompt :: string
  completion :: string
  metadata :: "string \<rightharpoonup> json"

record TrainingExample =
  articleId :: string
  title :: string
  content :: string
  publication :: string
  publishedDate :: string
  metadata :: "string \<rightharpoonup> json"

record TrainingConfig =
  lookBackDays :: int
  publicationId :: "string option"
  trainingRunId :: string
  minPromptCount :: int
  trainingDataBucket :: string
  athenaDatabase :: string
  athenaTable :: string
  athenaWorkgroup :: string
  athenaOutputLocation :: string

record ProcessingResult =
  promptCount :: nat
  s3Location :: string
  datasetVersion :: string
  processingTime :: int


section \<open>JavaScript library functions\<close>

text \<open>\<open>String.prototype.trim\<close>: white space and line terminators, here those among the
  code units below 256.\<close>

definition is_js_space :: "char \<Rightarrow> bool" where
  "is_js_space c = ((of_char c :: nat) \<in> {9, 10, 11, 12, 13, 32, 160})"

definition js_trim :: "string \<Rightarrow> string" where
  "js_trim s = rev (dropWhile is_js_space (rev (dropWhile is_js_space s)))"

text \<open>\<open>Array.prototype.slice(start, end)\<close>, with its relative (negative) indices.\<close>

definition js_slice :: "'a list \<Rightarrow> int \<Rightarrow> int \<Rightarrow> 'a list" where
  "js_slice xs start fin =
     (let len = int (length xs);
          k = (if start < 0 then max (len + start) 0 else min start len);
          final = (if fin < 0 then max (len + fin) 0 else min fin len)
      in take (nat (final - k)) (drop (nat k) xs))"

text \<open>\<open>Number.prototype.toString\<close> on an integer (\<open>Date.now()\<close>, a length, a day count):
  its decimal digits, with a sign when negative.\<close>

definition digit_char :: "nat \<Rightarrow> char" where
  "digit_char d = char_of (48 + d)"

fun digits_of_nat :: "nat \<Rightarrow> string" where
  "digits_of_nat n =
     (if n < 10 then [digit_char n] else digits_of_nat (n div 10) @ [digit_char (n mod 10)])"

declare digits_of_nat.simps [simp del]

definition int_toString :: "int \<Rightarrow> string" where
  "int_toString i = (if i < 0 then ''-'' @ digits_of_nat (nat (- i)) else digits_of_nat (nat i))"

text \<open>\<open>Array.prototype.join\<close>.\<close>

fun js_join :: "string \<Rightarrow> string list \<Rightarrow> string" where
  "js_join sep [] = []"
| "js_join sep [x] = x"
| "js_join sep (x # y # ys) = x @ sep @ js_join sep (y # ys)"

text \<open>\<open>process.env.NAME || fallback\<close>; the environment is a map.\<close>

definition env_or :: "(string \<rightharpoonup> string) \<Rightarrow> string \<Rightarrow> string \<Rightarrow> string" where
  "env_or env name fallback =
     (case env name of None \<Rightarrow> fallback | Some v \<Rightarrow> if v = [] then fallback else v)"


section \<open>The orchestrator state machine (lib/bedrock-training-pipeline-stack.ts)\<close>

text \<open>
  \<open>createStateMachine\<close> builds a Step Functions definition. Its states are the
  constructs of the source, under their construct ids; the transitions are the \<open>.next\<close>,
  \<open>.when\<close> and \<open>.otherwise\<close> edges. The branch predicates read two fields of the
  execution's data: \<open>$.taskExecution.Succeeded\<close> and \<open>$.trainingStatus.status\<close>, the latter
  written by the last \<open>CheckTrainingStatus\<close> call.
\<close>

datatype sfn_state =
    RunTrainingTask
  | CheckTaskSuccess
  | TaskSucceeded
  | WaitForTraining
  | CheckTrainingStatus
  | HandleTrainingCompletion
  | TrainingSucceeded
  | NotifyFailure
  | TrainingFailed
  | NotifyEcsFailure
  | TaskFailed

text \<open>The Choice state \<open>HandleTrainingCompletion\<close> (lines 308-333): two \<open>stringEquals\<close>
  rules, tried in order, and the \<open>otherwise\<close> edge.\<close>

definition handleTrainingCompletion :: "string \<Rightarrow> sfn_state" where
  "handleTrainingCompletion status =
     (if status = ''COMPLETED'' then TrainingSucceeded
      else if status = ''FAILED'' then NotifyFailure
      else WaitForTraining)"

text \<open>The Choice state \<open>CheckTaskSuccess\<close> (lines 351-370).\<close>

definition checkTaskSuccess :: "bool \<Rightarrow> sfn_state" where
  "checkTaskSuccess succeeded = (if succeeded then TaskSucceeded else NotifyEcsFailure)"

text \<open>The successor of a state; \<open>None\<close> at the terminal states (Succeed and Fail).\<close>

fun next_state :: "bool \<Rightarrow> string \<Rightarrow> sfn_state \<Rightarrow> sfn_state option" where
  "next_state succeeded status RunTrainingTask = Some CheckTaskSuccess"
| "next_state succeeded status CheckTaskSuccess = Some (checkTaskSuccess succeeded)"
| "next_state succeeded status TaskSucceeded = Some WaitForTraining"
| "next_state succeeded status WaitForTraining = Some CheckTrainingStatus"
| "next_state succeeded status CheckTrainingStatus = Some HandleTrainingCompletion"
| "next_state succeeded status HandleTrainingCompletion = Some (handleTrainingCompletion status)"
| "next_state succeeded status TrainingSucceeded = None"
| "next_state succeeded status NotifyFailure = Some TrainingFailed"
| "next_state succeeded status TrainingFailed = None"
| "next_state succeeded status NotifyEcsFailure = Some TaskFailed"
| "next_state succeeded status TaskFailed = None"

text \<open>
  The polling loop from \<open>WaitForTraining\<close>: each poll writes the status it read, then the
  choice is taken. The list holds the statuses of the successive polls; the result is the
  state the machine is in when the list is used up or a terminal state is reached, with the
  states visited on the way.
\<close>

fun poll_loop :: "string list \<Rightarrow> sfn_state list" where
  "poll_loop [] = [WaitForTraining]"
| "poll_loop (status # rest) =
     [WaitForTraining, CheckTrainingStatus, HandleTrainingCompletion] @
     (case handleTrainingCompletion status of
        WaitForTraining \<Rightarrow> poll_loop rest
      | NotifyFailure \<Rightarrow> [NotifyFailure, TrainingFailed]
      | s \<Rightarrow> [s])"


section \<open>The cleaning stages (app/src/data-cleaner.ts)\<close>

record DataCleaner =
  seenArticleIds :: "string set"

subsection \<open>Completeness filter and markup stripping\<close>

text \<open>\<open>removeNulls\<close>: every field is truthy (a non-empty string) and title and content
  are not white space only.\<close>

definition removeNulls :: "TrainingExample list \<Rightarrow> TrainingExample list" where
  "removeNulls examples =
     filter (\<lambda>example.
       articleId example \<noteq> [] \<and> title example \<noteq> [] \<and> content example \<noteq> [] \<and>
       js_trim (title example) \<noteq> [] \<and> js_trim (content example) \<noteq> [] \<and>
       publication example \<noteq> [] \<and> publishedDate example \<noteq> []) examples"

text \<open>\<open>stripHtml\<close>; \<open>convert\<close> is the html-to-text library's function with the options of
  the source, a parameter here.\<close>

definition stripHtml :: "(string \<Rightarrow> string) \<Rightarrow> TrainingExample list \<Rightarrow> TrainingExample list" where
  "stripHtml convert examples =
     map (\<lambda>example. example\<lparr>title := js_trim (convert (title example)),
                             content := js_trim (convert (content example))\<rparr>) examples"

subsection \<open>Duplicate elimination\<close>

text \<open>The \<open>for ... of\<close> loop of \<open>filterDuplicates\<close>, with the set and the output array as
  accumulators.\<close>

fun filterDuplicates_loop ::
  "string set \<Rightarrow> TrainingExample list \<Rightarrow> TrainingExample list \<Rightarrow> string set \<times> TrainingExample list" where
  "filterDuplicates_loop seen unique [] = (seen, unique)"
| "filterDuplicates_loop seen unique (example # rest) =
     (if articleId example \<notin> seen
      then filterDuplicates_loop (insert (articleId example) seen) (unique @ [example]) rest
      else filterDuplicates_loop seen unique rest)"

text \<open>\<open>filterDuplicates\<close> clears the instance's set first (\<open>this.seenArticleIds.clear()\<close>);
  the instance is returned with the set the loop leaves behind.\<close>

definition filterDuplicates ::
  "DataCleaner \<Rightarrow> TrainingExample list \<Rightarrow> DataCleaner \<times> TrainingExample list" where
  "filterDuplicates this examples =
     (case filterDuplicates_loop {} [] examples of
        (seen, unique) \<Rightarrow> (this\<lparr>seenArticleIds := seen\<rparr>, unique))"

subsection \<open>Heuristic validation\<close>

text \<open>\<open>(s.match(/"/g) || []).length\<close> and \<open>(s.match(/[A-Z]/g) || []).length\<close> count the
  code units of \<open>s\<close> in the character class.\<close>

definition count_quotes :: "string \<Rightarrow> nat" where
  "count_quotes s = length (filter (\<lambda>c. c = CHR 0x22) s)"

definition is_AZ :: "char \<Rightarrow> bool" where
  "is_AZ c = (65 \<le> (of_char c :: nat) \<and> (of_char c :: nat) \<le> 90)"

definition count_AZ :: "string \<Rightarrow> nat" where
  "count_AZ s = length (filter is_AZ s)"

definition quoteCount :: "TrainingExample \<Rightarrow> nat" where
  "quoteCount example = count_quotes (title example) + count_quotes (content example)"

text \<open>
  \<open>allCapsRatio\<close> is a quotient of two lengths, compared with the literal \<open>0.8\<close>. It is
  kept as an exact rational: for lengths below \<open>2^53\<close> the double quotient \<open>a / b\<close>
  exceeds the double \<open>0.8\<close> exactly when \<open>a / b > 4 / 5\<close>, since \<open>a / b\<close> is either at most
  \<open>4 / 5\<close> or above it by at least \<open>1 / (5 b)\<close>, far more than the rounding error. The
  quotient is only evaluated when the title has at least 5 code units.
\<close>

definition allCapsRatio :: "TrainingExample \<Rightarrow> rat" where
  "allCapsRatio example = of_nat (count_AZ (title example)) / of_nat (length (title example))"

text \<open>The callback of the \<open>filter\<close> in \<open>validateEntitiesAndQuotes\<close>: the warnings it logs
  and its verdict.\<close>

definition validate_example :: "TrainingExample \<Rightarrow> string list \<times> bool" where
  "validate_example example =
     (let warnings =
        (if quoteCount example mod 2 \<noteq> 0
         then [''Unbalanced quotes detected in example: '' @ take 50 (title example)]
         else [])
      in if length (content example) < 50 \<or> length (title example) < 5 then (warnings, False)
         else if allCapsRatio example > 8 / 10 \<and> length (title example) > 20 then (warnings, False)
         else (warnings, True))"

definition validateEntitiesAndQuotes :: "TrainingExample list \<Rightarrow> string list \<times> TrainingExample list" where
  "validateEntitiesAndQuotes examples =
     (concat (map (\<lambda>e. fst (validate_example e)) examples),
      filter (\<lambda>e. snd (validate_example e)) examples)"


subsection \<open>The pipeline\<close>

text \<open>\<open>cleanExamples\<close>: the four stages in their fixed order.\<close>

definition cleanExamples ::
  "(string \<Rightarrow> string) \<Rightarrow> DataCleaner \<Rightarrow> TrainingExample list \<Rightarrow> DataCleaner \<times> TrainingExample list" where
  "cleanExamples convert this examples =
     (let cleaned = removeNulls examples;
          cleaned = stripHtml convert cleaned
      in case filterDuplicates this cleaned of
           (this', cleaned) \<Rightarrow> (this', snd (validateEntitiesAndQuotes cleaned)))"


section \<open>The retriever's pagination (app/src/data-service.ts)\<close>

text \<open>
  A result row is a list of optional column values; \<open>row.Data\<close> itself may be absent.
  A response carries the rows of one page and an optional token for the next page.
\<close>

type_synonym Datum = "string option"

record Row =
  Data :: "Datum list option"

record GetQueryResultsOutput =
  Rows :: "Row list option"
  NextToken :: "string option"

definition extractValue :: "Datum \<Rightarrow> string" where
  "extractValue d = (case d of None \<Rightarrow> [] | Some v \<Rightarrow> v)"

text \<open>
  The body of the \<open>for\<close> loop of \<open>getQueryResults\<close> for one row: \<open>None\<close> when the row is
  skipped, otherwise the decoded record, or the error \<open>JSON.parse\<close> throws. \<open>JSON.parse\<close>
  is the language's own and is a parameter here (\<open>None\<close>: it throws).
\<close>

definition decode_row ::
  "(string \<Rightarrow> (string \<rightharpoonup> json) option) \<Rightarrow> Row \<Rightarrow> (string + TrainingExample) option" where
  "decode_row json_parse row =
     (let data = (case Data row of None \<Rightarrow> [] | Some d \<Rightarrow> d) in
      if length data \<ge> 5 then
        (if length data > 5 then
           (case json_parse (if extractValue (data ! 5) = [] then ''{}'' else extractValue (data ! 5)) of
              None \<Rightarrow> Some (Inl ''SyntaxError'')
            | Some m \<Rightarrow>
                Some (Inr \<lparr>articleId = extractValue (data ! 0), title = extractValue (data ! 1),
                  content = extractValue (data ! 2), publication = extractValue (data ! 3),
                  publishedDate = extractValue (data ! 4), metadata = m\<rparr>))
         else
           Some (Inr \<lparr>articleId = extractValue (data ! 0), title = extractValue (data ! 1),
             content = extractValue (data ! 2), publication = extractValue (data ! 3),
             publishedDate = extractValue (data ! 4), metadata = Map.empty\<rparr>))
      else None)"

text \<open>The rows \<open>rows[i]\<close>, \<open>i\<close> from where the caller starts, pushed onto \<open>results\<close>.\<close>

fun decode_rows ::
  "(string \<Rightarrow> (string \<rightharpoonup> json) option) \<Rightarrow> Row list \<Rightarrow> TrainingExample list
     \<Rightarrow> string + TrainingExample list" where
  "decode_rows json_parse [] results = Inr results"
| "decode_rows json_parse (row # rows) results =
     (case decode_row json_parse row of
        None \<Rightarrow> decode_rows json_parse rows results
      | Some (Inl err) \<Rightarrow> Inl err
      | Some (Inr example) \<Rightarrow> decode_rows json_parse rows (results @ [example]))"

text \<open>The \<open>for\<close> loop of one page starts at index 1 (\<open>// Skip header row\<close>).\<close>

definition decode_page ::
  "(string \<Rightarrow> (string \<rightharpoonup> json) option) \<Rightarrow> GetQueryResultsOutput \<Rightarrow> TrainingExample list
     \<Rightarrow> string + TrainingExample list" where
  "decode_page json_parse response results =
     (let rows = (case Rows response of None \<Rightarrow> [] | Some rs \<Rightarrow> rs)
      in decode_rows json_parse (drop 1 rows) results)"

text \<open>\<open>while (nextToken)\<close>: an absent and an empty token both end the loop.\<close>

definition truthy :: "string option \<Rightarrow> bool" where
  "truthy t = (case t of None \<Rightarrow> False | Some v \<Rightarrow> v \<noteq> [])"

text \<open>
  The \<open>do ... while\<close> loop. The backend is a function from the token sent to the page
  returned, or to the error the call throws. A backend that always returns a token keeps
  the loop running: the result is then \<open>None\<close>.
\<close>

partial_function (option) getQueryResults_loop ::
  "(string \<Rightarrow> (string \<rightharpoonup> json) option) \<Rightarrow> (string option \<Rightarrow> string + GetQueryResultsOutput)
     \<Rightarrow> string option \<Rightarrow> TrainingExample list \<Rightarrow> (string + TrainingExample list) option" where
  "getQueryResults_loop json_parse send nextToken results =
     (case send nextToken of
        Inl err \<Rightarrow> Some (Inl err)
      | Inr response \<Rightarrow>
          (case decode_page json_parse response results of
             Inl err \<Rightarrow> Some (Inl err)
           | Inr results' \<Rightarrow>
               if truthy (NextToken response)
               then getQueryResults_loop json_parse send (NextToken response) results'
               else Some (Inr results')))"

definition getQueryResults ::
  "(string \<Rightarrow> (string \<rightharpoonup> json) option) \<Rightarrow> (string option \<Rightarrow> string + GetQueryResultsOutput)
     \<Rightarrow> (string + TrainingExample list) option" where
  "getQueryResults json_parse send = getQueryResults_loop json_parse send None []"


section \<open>Distillation (app/src/distillation-service.ts)\<close>

record DistillationService =
  teacherModelId :: string
  maxConcurrentRequests :: int

text \<open>The constructor: \<open>config.maxConcurrentRequests || 5\<close>.\<close>

definition new_DistillationService :: "string \<Rightarrow> int option \<Rightarrow> DistillationService" where
  "new_DistillationService tm mcr =
     \<lparr>teacherModelId = tm,
      maxConcurrentRequests = (case mcr of None \<Rightarrow> 5 | Some n \<Rightarrow> if n = 0 then 5 else n)\<rparr>"

record InvokeModelCommand =
  modelId :: string
  anthropic_version :: string
  max_tokens :: nat
  userContent :: string

text \<open>
  What the \<open>try\<close> block of \<open>generateTeacherOutput\<close> observes of one teacher call: an
  exception (from the call, the decoding or the property access), with the text the
  \<open>catch\<close> block records (\<open>error.message\<close> or \<open>String(error)\<close>), or a parsed response, of
  which only \<open>content?.[0]?.text\<close> is read (\<open>None\<close> when it is absent).
\<close>

datatype teacher_outcome = Threw string | Replied "string option"

definition createDistillationPrompt :: "TrainingExample \<Rightarrow> string" where
  "createDistillationPrompt example =
     ''You are an expert headline writer for '' @ publication example @ ''. \<newline>'' @
     ''      Generate a high-quality, SEO-optimized headline for the following article content. The headline should be:\<newline>'' @
     ''      - Editorial quality and engaging\<newline>'' @
     ''      - SEO-optimized with relevant keywords\<newline>'' @
     ''      - Appropriate for the publication's style\<newline>'' @
     ''      - Between 8-15 words\<newline>'' @
     ''\<newline>'' @
     ''      Article content:\<newline>'' @
     ''      '' @ take 1000 (content example) @
     (if length (content example) > 1000 then ''...'' else []) @
     ''\<newline>\<newline>      Generate the headline:''"

definition createStudentPrompt :: "TrainingExample \<Rightarrow> string" where
  "createStudentPrompt example =
     ''Generate a headline for the following article:\<newline>'' @
     ''\<newline>'' @
     ''Article content:\<newline>'' @
     take 500 (content example) @ (if length (content example) > 500 then ''...'' else []) @
     ''\<newline>\<newline>'' @
     ''Publication: '' @ publication example @ ''\<newline>'' @
     ''Style requirements: Editorial quality, SEO-optimized, engaging''"

text \<open>
  \<open>generateTeacherOutput\<close>, with the command it sends (lines 260-278) as a definition of
  its own. An object literal with a spread last,
  \<open>{k1: v1, ..., ...example.metadata}\<close>, is the map of the listed keys overridden by the
  spread object's own keys: \<^term>\<open>m1 ++ m2\<close>.
\<close>

definition teacherCommand :: "DistillationService \<Rightarrow> TrainingExample \<Rightarrow> InvokeModelCommand" where
  "teacherCommand this example =
     (let prompt = createDistillationPrompt example
      in \<lparr>modelId = teacherModelId this, anthropic_version = ''bedrock-2023-05-31'',
          max_tokens = 200, userContent = prompt\<rparr>)"

definition generateTeacherOutput ::
  "DistillationService \<Rightarrow> (InvokeModelCommand \<Rightarrow> teacher_outcome) \<Rightarrow> TrainingExample \<Rightarrow> PromptExample" where
  "generateTeacherOutput this send example =
     (let command = teacherCommand this example
      in case send command of
        Replied text \<Rightarrow>
          (let teacherCompletion =
             (case text of
                None \<Rightarrow> title example
              | Some t \<Rightarrow> if js_trim t = [] then title example else js_trim t)
           in \<lparr>prompt = createStudentPrompt example,
               completion = teacherCompletion,
               PromptExample.metadata =
                 [''articleId'' \<mapsto> JString (articleId example),
                  ''publication'' \<mapsto> JString (publication example),
                  ''publishedDate'' \<mapsto> JString (publishedDate example),
                  ''originalTitle'' \<mapsto> JString (title example),
                  ''teacherModel'' \<mapsto> JString (teacherModelId this)] ++ metadata example\<rparr>)
      | Threw message \<Rightarrow>
          \<lparr>prompt = createStudentPrompt example,
           completion = title example,
           PromptExample.metadata =
             [''articleId'' \<mapsto> JString (articleId example),
              ''publication'' \<mapsto> JString (publication example),
              ''publishedDate'' \<mapsto> JString (publishedDate example),
              ''teacherModelError'' \<mapsto> JString message] ++ metadata example\<rparr>)"

text \<open>
  The batch loop of \<open>distillExamples\<close>:
  \<open>for (let i = 0; i < examples.length; i += this.maxConcurrentRequests)\<close>. With a
  negative step the index never reaches the length and the loop does not end; the result
  is then \<open>None\<close>.
\<close>

partial_function (option) distillExamples_loop ::
  "DistillationService \<Rightarrow> (InvokeModelCommand \<Rightarrow> teacher_outcome) \<Rightarrow> TrainingExample list
     \<Rightarrow> int \<Rightarrow> PromptExample list \<Rightarrow> PromptExample list option" where
  "distillExamples_loop this send examples i prompts =
     (if i < int (length examples)
      then distillExamples_loop this send examples (i + maxConcurrentRequests this)
             (prompts @ map (generateTeacherOutput this send)
                          (js_slice examples i (i + maxConcurrentRequests this)))
      else Some prompts)"

definition distillExamples ::
  "DistillationService \<Rightarrow> (InvokeModelCommand \<Rightarrow> teacher_outcome) \<Rightarrow> TrainingExample list
     \<Rightarrow> PromptExample list option" where
  "distillExamples this send examples = distillExamples_loop this send examples 0 []"


section \<open>The dataset writer (app/src/storage-service.ts)\<close>

text \<open>\<open>config.publicationId || "all"\<close>.\<close>

definition publicationId_or_all :: "TrainingConfig \<Rightarrow> string" where
  "publicationId_or_all config =
     (case publicationId config of None \<Rightarrow> ''all'' | Some p \<Rightarrow> if p = [] then ''all'' else p)"

record PutObjectCommand =
  Bucket :: string
  Key :: string
  Body :: string
  ContentType :: string
  Metadata :: "(string \<times> string) list"

text \<open>
  Lines 15-37 of \<open>saveTrainingDataset\<close>: the command it builds. \<open>now\<close> is the value of the
  first \<open>Date.now()\<close>; \<open>JSON.stringify\<close> is the language's own and a parameter.
\<close>

definition saveTrainingDataset_command ::
  "(PromptExample \<Rightarrow> string) \<Rightarrow> int \<Rightarrow> PromptExample list \<Rightarrow> TrainingConfig \<Rightarrow> PutObjectCommand" where
  "saveTrainingDataset_command stringify now prompts config =
     (let datasetVersion = int_toString now @ ''-'' @ trainingRunId config;
          key = ''datasets/'' @ publicationId_or_all config @ ''/'' @ datasetVersion @
                ''/training-data.jsonl'';
          jsonlContent = js_join ''\<newline>'' (map stringify prompts)
      in \<lparr>Bucket = trainingDataBucket config,
          Key = key,
          Body = jsonlContent,
          ContentType = ''application/jsonl'',
          Metadata =
            [(''training-run-id'', trainingRunId config),
             (''prompt-count'', int_toString (int (length prompts))),
             (''publication-id'', publicationId_or_all config),
             (''look-back-days'', int_toString (lookBackDays config))]\<rparr>)"

text \<open>
  \<open>saveTrainingDataset\<close>: \<open>s3send\<close> is the storage client (\<open>Some\<close> error text when the
  call throws), \<open>now\<close> and \<open>now'\<close> the two readings of the clock.
\<close>

definition saveTrainingDataset ::
  "(PromptExample \<Rightarrow> string) \<Rightarrow> (PutObjectCommand \<Rightarrow> string option) \<Rightarrow> int \<Rightarrow> int
     \<Rightarrow> PromptExample list \<Rightarrow> TrainingConfig \<Rightarrow> string + ProcessingResult" where
  "saveTrainingDataset stringify s3send now now' prompts config =
     (let command = saveTrainingDataset_command stringify now prompts config in
      case s3send command of
        Some err \<Rightarrow> Inl err
      | None \<Rightarrow>
          Inr \<lparr>promptCount = length prompts,
               s3Location = ''s3://'' @ trainingDataBucket config @ ''/'' @ Key command,
               datasetVersion = int_toString now @ ''-'' @ trainingRunId config,
               processingTime = now'\<rparr>)"

section \<open>The training job submitter (app/src/bedrock-service.ts)\<close>

record BedrockTrainingJobConfig =
  modelId :: string
  trainingDataS3Uri :: string
  outputDataConfigS3Uri :: string
  baseModelArn :: string
  hyperParameters :: "(string \<times> string) list option"

record CreateModelCustomizationJobCommand =
  jobName :: string
  customModelName :: string
  roleArn :: "string option"
  baseModelIdentifier :: string
  customizationType :: string
  trainingDataConfig_s3Uri :: string
  hyperParameters :: "(string \<times> string) list"
  outputDataConfig_s3Uri :: string

text \<open>The command \<open>createModelCustomizationJob\<close> builds; \<open>now\<close> is \<open>Date.now()\<close>.\<close>

definition createModelCustomizationJob_command ::
  "(string \<rightharpoonup> string) \<Rightarrow> int \<Rightarrow> TrainingConfig \<Rightarrow> ProcessingResult \<Rightarrow> BedrockTrainingJobConfig
     \<Rightarrow> CreateModelCustomizationJobCommand" where
  "createModelCustomizationJob_command env now config result bedrockConfig =
     (let stage = env_or env ''STAGE'' ''dev'' in
      \<lparr>jobName = ''training-'' @ trainingRunId config @ ''-'' @ stage,
       customModelName =
         ''custom-model-'' @ publicationId_or_all config @ ''-'' @ stage @ ''-'' @ int_toString now,
       roleArn = env ''BEDROCK_ROLE_ARN'',
       baseModelIdentifier = baseModelArn bedrockConfig,
       customizationType = ''FINE_TUNING'',
       trainingDataConfig_s3Uri = s3Location result,
       hyperParameters =
         (case BedrockTrainingJobConfig.hyperParameters bedrockConfig of None \<Rightarrow> [] | Some h \<Rightarrow> h),
       outputDataConfig_s3Uri = outputDataConfigS3Uri bedrockConfig\<rparr>)"

text \<open>\<open>createModelCustomizationJob\<close>: the client returns an optional \<open>jobArn\<close> or throws;
  the error is rethrown.\<close>

definition createModelCustomizationJob ::
  "(string \<rightharpoonup> string) \<Rightarrow> (CreateModelCustomizationJobCommand \<Rightarrow> string + string option) \<Rightarrow> int
     \<Rightarrow> TrainingConfig \<Rightarrow> ProcessingResult \<Rightarrow> BedrockTrainingJobConfig \<Rightarrow> string + string" where
  "createModelCustomizationJob env send now config result bedrockConfig =
     (case send (createModelCustomizationJob_command env now config result bedrockConfig) of
        Inl err \<Rightarrow> Inl err
      | Inr jobArn \<Rightarrow>
          Inr (case jobArn of None \<Rightarrow> ''unknown'' | Some a \<Rightarrow> if a = [] then ''unknown'' else a))"


section \<open>The data job (app/src/index.ts)\<close>

text \<open>
  \<open>main\<close> constructs five service objects and calls one method of each in turn. The
  methods are parameters of the model, each returning its value or the error it throws,
  so that the sequencing of \<open>main\<close> is stated for every behaviour of the services. The
  run is observed through the calls made, in order, and the exit code.
\<close>

record services =
  dataService_queryTrainingData :: "TrainingConfig \<Rightarrow> string + TrainingExample list"
  dataCleaner_cleanExamples :: "TrainingExample list \<Rightarrow> string + TrainingExample list"
  distillationService_distillExamples :: "TrainingExample list \<Rightarrow> string + PromptExample list"
  storageService_saveTrainingDataset ::
    "PromptExample list \<Rightarrow> TrainingConfig \<Rightarrow> string + ProcessingResult"
  bedrockService_createModelCustomizationJob ::
    "TrainingConfig \<Rightarrow> ProcessingResult \<Rightarrow> BedrockTrainingJobConfig \<Rightarrow> string + string"

datatype service_call =
    QueryTrainingData
  | CleanExamples
  | DistillExamples
  | SaveTrainingDataset
  | CreateModelCustomizationJob

record run =
  calls :: "service_call list"
  exitCode :: nat

text \<open>
  The \<open>try\<close> block of \<open>main\<close> (lines 52-133), from the constructed \<open>config\<close>. A thrown
  error reaches the \<open>catch\<close> block, which exits with 1; the third count check exits with 1
  itself; the end of the block exits with 0.
\<close>

definition main :: "(string \<rightharpoonup> string) \<Rightarrow> services \<Rightarrow> TrainingConfig \<Rightarrow> run" where
  "main env sv config =
     (case dataService_queryTrainingData sv config of
        Inl err \<Rightarrow> \<lparr>calls = [QueryTrainingData], exitCode = 1\<rparr>
      | Inr rawExamples \<Rightarrow>
     if int (length rawExamples) < minPromptCount config
     then \<lparr>calls = [QueryTrainingData], exitCode = 1\<rparr>
     else
     (case dataCleaner_cleanExamples sv rawExamples of
        Inl err \<Rightarrow> \<lparr>calls = [QueryTrainingData, CleanExamples], exitCode = 1\<rparr>
      | Inr cleanedExamples \<Rightarrow>
     if int (length cleanedExamples) < minPromptCount config
     then \<lparr>calls = [QueryTrainingData, CleanExamples], exitCode = 1\<rparr>
     else
     (case distillationService_distillExamples sv cleanedExamples of
        Inl err \<Rightarrow> \<lparr>calls = [QueryTrainingData, CleanExamples, DistillExamples], exitCode = 1\<rparr>
      | Inr prompts \<Rightarrow>
     if int (length prompts) < minPromptCount config
     then \<lparr>calls = [QueryTrainingData, CleanExamples, DistillExamples], exitCode = 1\<rparr>
     else
     (case storageService_saveTrainingDataset sv prompts config of
        Inl err \<Rightarrow>
          \<lparr>calls = [QueryTrainingData, CleanExamples, DistillExamples, SaveTrainingDataset],
           exitCode = 1\<rparr>
      | Inr result \<Rightarrow>
     (let bedrockConfig =
        \<lparr>modelId = env_or env ''BEDROCK_MODEL_ID'' ''anthropic.claude-v2'',
         trainingDataS3Uri = s3Location result,
         outputDataConfigS3Uri =
           ''s3://'' @ trainingDataBucket config @ ''/bedrock-outputs/'' @ trainingRunId config @ ''/'',
         baseModelArn = env_or env ''BEDROCK_BASE_MODEL_ARN'' [],
         BedrockTrainingJobConfig.hyperParameters = None\<rparr>
      in case bedrockService_createModelCustomizationJob sv config result bedrockConfig of
        Inl err \<Rightarrow>
          \<lparr>calls = [QueryTrainingData, CleanExamples, DistillExamples, SaveTrainingDataset,
                    CreateModelCustomizationJob],
           exitCode = 1\<rparr>
      | Inr jobArn \<Rightarrow>
          \<lparr>calls = [QueryTrainingData, CleanExamples, DistillExamples, SaveTrainingDataset,
                    CreateModelCustomizationJob],
           exitCode = 0\<rparr>)))))"


section \<open>Auxiliary functions for the statements\<close>

text \<open>Reading a decimal numeral back, to show that \<open>toString\<close> loses nothing.\<close>

definition nat_of_digits :: "string \<Rightarrow> nat" where
  "nat_of_digits s = foldl (\<lambda>a c. 10 * a + ((of_char c :: nat) - 48)) 0 s"


text \<open>The specification's words, for comparison: an element is kept exactly when no
  earlier element of the input has its id; the kept elements stay in input order.\<close>

definition first_occurrences :: "TrainingExample list \<Rightarrow> TrainingExample list" where
  "first_occurrences xs =
     map (\<lambda>i. xs ! i)
       (filter (\<lambda>i. articleId (xs ! i) \<notin> articleId ` set (take i xs)) [0..<length xs])"

text \<open>The lines of a text, for the statement about the dataset file: the pieces between
  the separators, as \<open>split\<close> gives them.\<close>

fun split_on :: "char \<Rightarrow> string \<Rightarrow> string list" where
  "split_on c [] = [[]]"
| "split_on c (x # xs) =
     (if x = c then [] # split_on c xs
      else (case split_on c xs of [] \<Rightarrow> [[x]] | l # ls \<Rightarrow> (x # l) # ls))"

text \<open>
  A result set served in pages: the backend answers the first request with page 0 and a
  request with token \<open>k\<close> (in decimal) with page \<open>k\<close>, and returns the token of the next
  page with every page but the last.
\<close>

definition page_token :: "nat \<Rightarrow> string option" where
  "page_token k = (if k = 0 then None else Some (digits_of_nat k))"

definition paged_backend :: "Row list list \<Rightarrow> string option \<Rightarrow> string + GetQueryResultsOutput" where
  "paged_backend pages token =
     (let k = (case token of None \<Rightarrow> 0 | Some t \<Rightarrow> nat_of_digits t) in
      if k < length pages
      then Inr \<lparr>Rows = Some (pages ! k),
                NextToken = (if Suc k < length pages then Some (digits_of_nat (Suc k)) else None)\<rparr>
      else Inr \<lparr>Rows = None, NextToken = None\<rparr>)"


text \<open>
  The specification's words, for comparison: an upper-case letter, among the code units
  below 256, is one of \<open>A\<close> to \<open>Z\<close> or a capital letter of Latin-1 (192 to 214 and 216
  to 222); the validation keeps a record when its body has at least 50 code units, its
  title at least 5, and it is not the case that the ratio of upper-case letters to the
  title's length exceeds 0.8 and the title is longer than 20.
\<close>

definition is_upper_case_letter :: "char \<Rightarrow> bool" where
  "is_upper_case_letter c =
     (let n = (of_char c :: nat)
      in (65 \<le> n \<and> n \<le> 90) \<or> (192 \<le> n \<and> n \<le> 214) \<or> (216 \<le> n \<and> n \<le> 222))"

definition keeps_as_specified :: "TrainingExample \<Rightarrow> bool" where
  "keeps_as_specified e =
     (50 \<le> length (content e) \<and> 5 \<le> length (title e) \<and>
      \<not> (of_nat (length (filter is_upper_case_letter (title e))) / of_nat (length (title e))
            > (8 / 10 :: rat)
         \<and> 20 < length (title e)))"


section \<open>Concrete inputs\<close>

definition sample_config :: TrainingConfig where
  "sample_config =
     \<lparr>lookBackDays = 30, publicationId = None, trainingRunId = ''run-1'', minPromptCount = 2,
      trainingDataBucket = ''bucket'', athenaDatabase = ''default'', athenaTable = ''articles'',
      athenaWorkgroup = ''primary'', athenaOutputLocation = ''s3://bucket/athena-results/''\<rparr>"

definition sample_example :: "string \<Rightarrow> string \<Rightarrow> string \<Rightarrow> TrainingExample" where
  "sample_example aid t c =
     \<lparr>articleId = aid, title = t, content = c, publication = ''Gazette'',
      publishedDate = ''2024-05-01'', metadata = Map.empty\<rparr>"

definition sample_prompt :: "string \<Rightarrow> PromptExample" where
  "sample_prompt c = \<lparr>prompt = ''p'', completion = c, PromptExample.metadata = Map.empty\<rparr>"

definition sample_result :: ProcessingResult where
  "sample_result =
     \<lparr>promptCount = 2, s3Location = ''s3://bucket/datasets/all/1-run-1/training-data.jsonl'',
      datasetVersion = ''1-run-1'', processingTime = 2\<rparr>"

text \<open>Services that return fixed lists, and accept the write and the submission.\<close>

definition fixed_services ::
  "TrainingExample list \<Rightarrow> TrainingExample list \<Rightarrow> PromptExample list \<Rightarrow> services" where
  "fixed_services raw cleaned prompts =
     \<lparr>dataService_queryTrainingData = (\<lambda>config. Inr raw),
      dataCleaner_cleanExamples = (\<lambda>examples. Inr cleaned),
      distillationService_distillExamples = (\<lambda>examples. Inr prompts),
      storageService_saveTrainingDataset = (\<lambda>prompts config. Inr sample_result),
      bedrockService_createModelCustomizationJob = (\<lambda>config result bedrockConfig. Inr ''arn:job'')\<rparr>"

definition sample_service :: DistillationService where
  "sample_service = \<lparr>teacherModelId = ''teacher'', maxConcurrentRequests = 2\<rparr>"

text \<open>Three teachers: one answers with blanks only, one always throws, one throws for
  the articles whose text contains a \<open>#\<close> and answers the others.\<close>

definition blank_teacher :: "InvokeModelCommand \<Rightarrow> teacher_outcome" where
  "blank_teacher command = Replied (Some ''  '')"

definition failing_teacher :: "InvokeModelCommand \<Rightarrow> teacher_outcome" where
  "failing_teacher command = Threw ''timeout''"

definition flaky_teacher :: "InvokeModelCommand \<Rightarrow> teacher_outcome" where
  "flaky_teacher command =
     (if CHR ''#'' \<in> set (userContent command) then Threw ''timeout''
      else Replied (Some ''  Teacher headline ''))"

text \<open>A record whose own metadata has a key \<open>teacherModelError\<close>.\<close>

definition annotated_example :: TrainingExample where
  "annotated_example =
     \<lparr>articleId = ''a1'', title = ''Original title'', content = ''Body'', publication = ''Gazette'',
      publishedDate = ''2024-05-01'',
      metadata = [''teacherModelError'' \<mapsto> JString ''from the source'']\<rparr>"

text \<open>A serializer that writes no line break, and a store that accepts every write.\<close>

definition sample_stringify :: "PromptExample \<Rightarrow> string" where
  "sample_stringify p = ''{completion:'' @ filter (\<lambda>c. c \<noteq> CHR ''\<newline>'') (completion p) @ ''}''"

definition s3_accepts :: "PutObjectCommand \<Rightarrow> string option" where
  "s3_accepts command = None"

text \<open>
  A result set of three data rows, \<open>a1\<close>, \<open>a2\<close> and \<open>a3\<close>, served in two pages: the
  header row and \<open>a1\<close>, then, under the token \<open>t1\<close>, \<open>a2\<close> and \<open>a3\<close>.
\<close>

definition header_row :: Row where
  "header_row =
     \<lparr>Data = Some [Some ''articleId'', Some ''title'', Some ''content'', Some ''publication'',
                    Some ''publishedDate'']\<rparr>"

definition sample_row :: "string \<Rightarrow> Row" where
  "sample_row aid =
     \<lparr>Data = Some [Some aid, Some ''A title'', Some ''Some content'', Some ''Gazette'',
                    Some ''2024-05-01'']\<rparr>"

definition two_page_backend :: "string option \<Rightarrow> string + GetQueryResultsOutput" where
  "two_page_backend token =
     (if token = None
      then Inr \<lparr>Rows = Some [header_row, sample_row ''a1''], NextToken = Some ''t1''\<rparr>
      else Inr \<lparr>Rows = Some [sample_row ''a2'', sample_row ''a3''], NextToken = None\<rparr>)"

definition no_json :: "string \<Rightarrow> (string \<rightharpoonup> json) option" where
  "no_json s = None"

definition empty_env :: "string \<rightharpoonup> string" where
  "empty_env = Map.empty"

definition sample_bedrockConfig :: BedrockTrainingJobConfig where
  "sample_bedrockConfig =
     \<lparr>modelId = ''anthropic.claude-v2'',
      trainingDataS3Uri = ''s3://bucket/datasets/all/1-run-1/training-data.jsonl'',
      outputDataConfigS3Uri = ''s3://bucket/bedrock-outputs/run-1/'',
      baseModelArn = [],
      BedrockTrainingJobConfig.hyperParameters = None\<rparr>"

text \<open>A record with one quotation mark in its title and a body of 58 code units, and a
  record whose title is 24 capital letters.\<close>

definition quoted_example :: TrainingExample where
  \<open>quoted_example =
     sample_example ''q1'' ''He said "stop''
       ''0123456789012345678901234567890123456789012345678901234567''\<close>

definition shouting_example :: TrainingExample where
  "shouting_example =
     sample_example ''s1'' ''BUYNOWBUYNOWBUYNOWBUYNOW''
       ''0123456789012345678901234567890123456789012345678901234567''"

text \<open>
  Four more records with that body. Two titles of 25 code units, one with 20 letters
  \<open>A\<close> to \<open>Z\<close> and one with 21; a title of 24 times the code unit 201, the capital E with
  acute accent; and a title of 20 letters \<open>A\<close> to \<open>Z\<close>.
\<close>

definition mixed_example :: TrainingExample where
  "mixed_example =
     sample_example ''m1'' ''BUYNOWBUYNOWBUYNOWBUtoday''
       ''0123456789012345678901234567890123456789012345678901234567''"

definition loud_example :: TrainingExample where
  "loud_example =
     sample_example ''l1'' ''BUYNOWBUYNOWBUYNOWBUYtoda''
       ''0123456789012345678901234567890123456789012345678901234567''"

definition accented_example :: TrainingExample where
  "accented_example =
     sample_example ''e1'' (replicate 24 (CHR 0xC9))
       ''0123456789012345678901234567890123456789012345678901234567''"

definition brief_shout_example :: TrainingExample where
  "brief_shout_example =
     sample_example ''b1'' ''BUYNOWBUYNOWBUYNOWBU''
       ''0123456789012345678901234567890123456789012345678901234567''"

text \<open>A configuration with a publication filter, and a store that refuses the writes to
  one key of the bucket and accepts the others.\<close>

definition publication_config :: TrainingConfig where
  "publication_config = sample_config\<lparr>publicationId := Some ''pub-7''\<rparr>"

definition s3_rejects_key :: "string \<Rightarrow> PutObjectCommand \<Rightarrow> string option" where
  "s3_rejects_key k command =
     (if Bucket command = ''bucket'' \<and> Key command = k then Some ''AccessDenied'' else None)"


section \<open>Decimal numerals\<close>

lemma digit_char_value: "d < 10 \<Longrightarrow> (of_char (digit_char d) :: nat) = 48 + d"
  by (simp add: digit_char_def)

lemma nat_of_digits_snoc:
  "nat_of_digits (s @ [c]) = 10 * nat_of_digits s + ((of_char c :: nat) - 48)"
  by (simp add: nat_of_digits_def)

lemma nat_of_digits_of_nat: "nat_of_digits (digits_of_nat n) = n"
proof (induction n rule: digits_of_nat.induct)
  case (1 n)
  show ?case
  proof (cases "n < 10")
    case True
    then show ?thesis
      by (subst digits_of_nat.simps) (simp add: nat_of_digits_def digit_char_value)
  next
    case False
    with 1 have "nat_of_digits (digits_of_nat (n div 10)) = n div 10" by simp
    with False show ?thesis
      by (subst digits_of_nat.simps) (simp add: nat_of_digits_snoc digit_char_value)
  qed
qed

lemma digits_of_nat_inj: "digits_of_nat m = digits_of_nat n \<Longrightarrow> m = n"
  by (metis nat_of_digits_of_nat)

lemma digits_of_nat_chars: "c \<in> set (digits_of_nat n) \<Longrightarrow> \<exists>d<10. c = digit_char d"
proof (induction n rule: digits_of_nat.induct)
  case (1 n)
  show ?case
  proof (cases "n < 10")
    case True
    with 1(2) show ?thesis
      by (subst (asm) digits_of_nat.simps) auto
  next
    case False
    have "n mod 10 < 10" by simp
    from 1(2) False have "c \<in> set (digits_of_nat (n div 10)) \<or> c = digit_char (n mod 10)"
      by (subst (asm) digits_of_nat.simps) auto
    then show ?thesis
      using 1(1) [OF False] \<open>n mod 10 < 10\<close> by blast
  qed
qed

lemma digits_of_nat_no_minus: "digits_of_nat n \<noteq> CHR ''-'' # s"
proof
  assume "digits_of_nat n = CHR ''-'' # s"
  then have "CHR ''-'' \<in> set (digits_of_nat n)" by simp
  then obtain d where "d < 10" "CHR ''-'' = digit_char d"
    using digits_of_nat_chars by blast
  then have "(of_char (CHR ''-'') :: nat) = 48 + d"
    using digit_char_value by metis
  then show False by simp
qed

text \<open>Two integers with the same decimal text are equal.\<close>

lemma int_toString_inj: "int_toString i = int_toString j \<Longrightarrow> i = j"
proof -
  assume eq: "int_toString i = int_toString j"
  consider "i < 0" "j < 0" | "i < 0" "\<not> j < 0" | "\<not> i < 0" "j < 0" | "\<not> i < 0" "\<not> j < 0"
    by blast
  then show ?thesis
  proof cases
    case 1
    with eq have "digits_of_nat (nat (- i)) = digits_of_nat (nat (- j))"
      by (simp add: int_toString_def)
    then have "nat (- i) = nat (- j)" by (rule digits_of_nat_inj)
    with 1 show ?thesis by simp
  next
    case 2
    with eq have "digits_of_nat (nat j) = CHR ''-'' # digits_of_nat (nat (- i))"
      by (simp add: int_toString_def)
    then show ?thesis using digits_of_nat_no_minus by blast
  next
    case 3
    with eq have "digits_of_nat (nat i) = CHR ''-'' # digits_of_nat (nat (- j))"
      by (simp add: int_toString_def)
    then show ?thesis using digits_of_nat_no_minus by blast
  next
    case 4
    with eq have "digits_of_nat (nat i) = digits_of_nat (nat j)"
      by (simp add: int_toString_def)
    then have "nat i = nat j" by (rule digits_of_nat_inj)
    with 4 show ?thesis by simp
  qed
qed

lemma digits_of_nat_not_empty: "digits_of_nat n \<noteq> []"
  by (subst digits_of_nat.simps) simp

lemma int_toString_42: "int_toString 42 = ''42''"
  by code_simp


section \<open>The orchestrator's poll branch\<close>

text \<open>The branches of the choice that the specification and the code agree on.\<close>

lemma handleTrainingCompletion_statuses:
  "handleTrainingCompletion ''COMPLETED'' = TrainingSucceeded"
  "handleTrainingCompletion ''FAILED'' = NotifyFailure"
  "next_state succeeded status NotifyFailure = Some TrainingFailed"
  "handleTrainingCompletion ''SUBMITTED'' = WaitForTraining"
  "handleTrainingCompletion ''IN_PROGRESS'' = WaitForTraining"
  by (simp_all add: handleTrainingCompletion_def)

lemma poll_loop_STOPPED_never_notifies:
  "NotifyFailure \<notin> set (poll_loop (replicate n ''STOPPED''))"
  by (induction n) (simp_all add: handleTrainingCompletion_def)

text \<open>
  Claim C1. The specification sends a poll result \<open>STOPPED\<close> to the training-failure
  notification and then to the failed state. In the source the choice has rules for
  \<open>COMPLETED\<close> and \<open>FAILED\<close> only, and every other status, \<open>STOPPED\<close> included, takes the
  \<open>otherwise\<close> edge back to \<open>WaitForTraining\<close>: after a poll that reads \<open>IN_PROGRESS\<close> and
  one that reads \<open>STOPPED\<close> the machine is waiting again, and no notification was sent.
\<close>

theorem handleTrainingCompletion_STOPPED_waits:
  "handleTrainingCompletion ''STOPPED'' = WaitForTraining
   \<and> poll_loop [''IN_PROGRESS'', ''STOPPED''] =
       [WaitForTraining, CheckTrainingStatus, HandleTrainingCompletion,
        WaitForTraining, CheckTrainingStatus, HandleTrainingCompletion,
        WaitForTraining]"
  by (simp add: handleTrainingCompletion_def)


section \<open>Minimum counts in the data job\<close>

text \<open>A write or a submission happens only after all three counts reached the minimum.\<close>

lemma main_write_and_submit_need_all_counts:
  "SaveTrainingDataset \<in> set (calls (main env sv config)) \<or>
   CreateModelCustomizationJob \<in> set (calls (main env sv config)) \<Longrightarrow>
   \<exists>raw cleaned prompts.
     dataService_queryTrainingData sv config = Inr raw \<and>
     dataCleaner_cleanExamples sv raw = Inr cleaned \<and>
     distillationService_distillExamples sv cleaned = Inr prompts \<and>
     minPromptCount config \<le> int (length raw) \<and>
     minPromptCount config \<le> int (length cleaned) \<and>
     minPromptCount config \<le> int (length prompts)"
  unfolding main_def Let_def
  by (simp split: sum.splits if_splits)

text \<open>
  Claim C2. With the configured minimum \<open>minPromptCount config\<close>: when fewer records are
  retrieved, the run exits with code 1 having called the query only (cleaning is not
  invoked); when fewer records survive cleaning, it exits with 1 having called the query
  and the cleaner only (distillation is not invoked); when fewer examples are generated,
  it exits with 1 having called the query, the cleaner and the distillation only (the
  write is not invoked). In none of the three runs is the dataset written or a training
  job submitted.
\<close>

theorem main_minimum_count_enforced:
  "(dataService_queryTrainingData sv config = Inr rawExamples \<and>
      int (length rawExamples) < minPromptCount config
      \<longrightarrow> main env sv config = \<lparr>calls = [QueryTrainingData], exitCode = 1\<rparr>)
   \<and> (dataService_queryTrainingData sv config = Inr rawExamples \<and>
      \<not> int (length rawExamples) < minPromptCount config \<and>
      dataCleaner_cleanExamples sv rawExamples = Inr cleanedExamples \<and>
      int (length cleanedExamples) < minPromptCount config
      \<longrightarrow> main env sv config = \<lparr>calls = [QueryTrainingData, CleanExamples], exitCode = 1\<rparr>)
   \<and> (dataService_queryTrainingData sv config = Inr rawExamples \<and>
      \<not> int (length rawExamples) < minPromptCount config \<and>
      dataCleaner_cleanExamples sv rawExamples = Inr cleanedExamples \<and>
      \<not> int (length cleanedExamples) < minPromptCount config \<and>
      distillationService_distillExamples sv cleanedExamples = Inr prompts \<and>
      int (length prompts) < minPromptCount config
      \<longrightarrow> main env sv config =
            \<lparr>calls = [QueryTrainingData, CleanExamples, DistillExamples], exitCode = 1\<rparr>)"
  by (simp add: main_def)

text \<open>The three failing runs at a minimum of 2: one record retrieved; two retrieved and
  one left by cleaning; two retrieved, two cleaned and one example generated.\<close>

theorem main_minimum_count_enforced_witness:
  "main empty_env
     (fixed_services [sample_example ''a1'' ''T'' ''B''] [] []) sample_config =
     \<lparr>calls = [QueryTrainingData], exitCode = 1\<rparr>
   \<and> main empty_env
     (fixed_services [sample_example ''a1'' ''T'' ''B'', sample_example ''a2'' ''T'' ''B'']
        [sample_example ''a1'' ''T'' ''B''] []) sample_config =
     \<lparr>calls = [QueryTrainingData, CleanExamples], exitCode = 1\<rparr>
   \<and> main empty_env
     (fixed_services [sample_example ''a1'' ''T'' ''B'', sample_example ''a2'' ''T'' ''B'']
        [sample_example ''a1'' ''T'' ''B'', sample_example ''a2'' ''T'' ''B'']
        [sample_prompt ''T'']) sample_config =
     \<lparr>calls = [QueryTrainingData, CleanExamples, DistillExamples], exitCode = 1\<rparr>"
  using
    main_minimum_count_enforced
      [where sv = "fixed_services [sample_example ''a1'' ''T'' ''B''] [] []"
         and config = sample_config and env = empty_env
         and rawExamples = "[sample_example ''a1'' ''T'' ''B'']"]
    main_minimum_count_enforced
      [where sv = "fixed_services
             [sample_example ''a1'' ''T'' ''B'', sample_example ''a2'' ''T'' ''B'']
             [sample_example ''a1'' ''T'' ''B''] []"
         and config = sample_config and env = empty_env
         and rawExamples = "[sample_example ''a1'' ''T'' ''B'', sample_example ''a2'' ''T'' ''B'']"
         and cleanedExamples = "[sample_example ''a1'' ''T'' ''B'']"]
    main_minimum_count_enforced
      [where sv = "fixed_services
             [sample_example ''a1'' ''T'' ''B'', sample_example ''a2'' ''T'' ''B'']
             [sample_example ''a1'' ''T'' ''B'', sample_example ''a2'' ''T'' ''B'']
             [sample_prompt ''T'']"
         and config = sample_config and env = empty_env
         and rawExamples = "[sample_example ''a1'' ''T'' ''B'', sample_example ''a2'' ''T'' ''B'']"
         and cleanedExamples = "[sample_example ''a1'' ''T'' ''B'', sample_example ''a2'' ''T'' ''B'']"
         and prompts = "[sample_prompt ''T'']"]
  by (simp add: fixed_services_def sample_config_def)


section \<open>Pagination of the query results\<close>

text \<open>A row with fewer than five columns is skipped; it raises nothing.\<close>

lemma decode_row_skips_short_rows:
  "length (case Data row of None \<Rightarrow> [] | Some d \<Rightarrow> d) < 5 \<Longrightarrow> decode_row json_parse row = None"
  by (simp add: decode_row_def Let_def)

lemma decode_rows_append:
  "decode_rows json_parse (rows @ rows') results =
     (case decode_rows json_parse rows results of
        Inl err \<Rightarrow> Inl err
      | Inr results' \<Rightarrow> decode_rows json_parse rows' results')"
  by (induction rows arbitrary: results) (auto split: option.splits sum.splits)

lemma paged_backend_page:
  "k < length pages \<Longrightarrow>
   paged_backend pages (page_token k) =
     Inr \<lparr>Rows = Some (pages ! k),
          NextToken = (if Suc k < length pages then page_token (Suc k) else None)\<rparr>"
  by (auto simp: paged_backend_def page_token_def nat_of_digits_of_nat Let_def)

lemma truthy_page_token: "truthy (page_token (Suc k))"
  by (simp add: truthy_def page_token_def digits_of_nat_not_empty)

lemma getQueryResults_loop_pages:
  "k < length pages \<Longrightarrow>
   getQueryResults_loop json_parse (paged_backend pages) (page_token k) results =
     Some (decode_rows json_parse (concat (map (drop 1) (drop k pages))) results)"
proof (induction "length pages - k" arbitrary: k results rule: less_induct)
  case less
  have here: "drop k pages = pages ! k # drop (Suc k) pages"
    using less.prems by (simp add: Cons_nth_drop_Suc)
  show ?case
  proof (cases "Suc k < length pages")
    case True
    have smaller: "length pages - Suc k < length pages - k" using True by simp
    note IH = less.hyps [OF smaller True]
    show ?thesis
      using less.prems True
      by (subst getQueryResults_loop.simps)
        (simp add: paged_backend_page decode_page_def here decode_rows_append IH
          truthy_page_token split: sum.splits)
  next
    case False
    then have "drop (Suc k) pages = []" by simp
    then show ?thesis
      using less.prems False
      by (subst getQueryResults_loop.simps)
        (simp add: paged_backend_page decode_page_def here truthy_def split: sum.splits)
  qed
qed

text \<open>
  On every result set served in pages, the fetch requests every page, ends after the
  last one, and returns the decoding of the rows of all pages without the first row of
  each page.
\<close>

lemma getQueryResults_pages:
  "pages \<noteq> [] \<Longrightarrow>
   getQueryResults json_parse (paged_backend pages) =
     Some (decode_rows json_parse (concat (map (drop 1) pages)) [])"
  using getQueryResults_loop_pages [of 0 pages json_parse "[]"]
  by (simp add: getQueryResults_def page_token_def)

text \<open>
  Claim C3. The specification has the fetch return a record for every well-formed row
  but the one header row of the result set. The source starts every page's loop at index
  1, so it leaves out the first row of every page: on the result set of the rows \<open>a1\<close>,
  \<open>a2\<close>, \<open>a3\<close> served as the pages (header, \<open>a1\<close>) and (\<open>a2\<close>, \<open>a3\<close>), the fetch follows
  the token to the second page, ends when no token comes back, and returns \<open>a1\<close> and \<open>a3\<close>;
  the data row \<open>a2\<close> is lost.
\<close>

theorem getQueryResults_drops_first_row_of_later_pages:
  "getQueryResults no_json two_page_backend =
     Some (Inr [sample_example ''a1'' ''A title'' ''Some content'',
                sample_example ''a3'' ''A title'' ''Some content''])"
  by (simp add: getQueryResults_def getQueryResults_loop.simps two_page_backend_def
      decode_page_def decode_row_def header_row_def sample_row_def sample_example_def
      extractValue_def truthy_def Let_def)

section \<open>Distillation\<close>

lemma js_slice_window:
  assumes "0 \<le> i" "i < int (length xs)" "0 < m"
  shows "js_slice xs i (i + m) = take (nat m) (drop (nat i) xs)"
proof (cases "i + m \<le> int (length xs)")
  case True
  with assms show ?thesis
    by (simp add: js_slice_def Let_def min_def)
next
  case False
  with assms have "length (drop (nat i) xs) \<le> nat m"
      "length (drop (nat i) xs) \<le> nat (int (length xs) - i)"
    by auto
  then have "take (nat m) (drop (nat i) xs) = drop (nat i) xs"
      "take (nat (int (length xs) - i)) (drop (nat i) xs) = drop (nat i) xs"
    by simp_all
  with False assms show ?thesis
    by (simp add: js_slice_def Let_def min_def)
qed

text \<open>With a positive batch size the batch loop ends, and it has then mapped
  \<open>generateTeacherOutput\<close> over the records from index \<open>i\<close> on, in order.\<close>

lemma distillExamples_loop_returns:
  assumes "0 < maxConcurrentRequests this" "0 \<le> i"
  shows "distillExamples_loop this send examples i prompts =
           Some (prompts @ map (generateTeacherOutput this send) (drop (nat i) examples))"
  using assms(2)
proof (induction "length examples - nat i" arbitrary: i prompts rule: less_induct)
  case less
  let ?m = "maxConcurrentRequests this"
  show ?case
  proof (cases "i < int (length examples)")
    case False
    then show ?thesis
      using less.prems by (subst distillExamples_loop.simps) simp
  next
    case True
    have smaller: "length examples - nat (i + ?m) < length examples - nat i"
      using True less.prems assms(1) by linarith
    have next_ok: "0 \<le> i + ?m" using less.prems assms(1) by simp
    have IH: "distillExamples_loop this send examples (i + ?m)
          (prompts @ map (generateTeacherOutput this send) (js_slice examples i (i + ?m))) =
        Some ((prompts @ map (generateTeacherOutput this send) (js_slice examples i (i + ?m))) @
          map (generateTeacherOutput this send) (drop (nat (i + ?m)) examples))"
      by (rule less.hyps [OF smaller next_ok])
    have window: "js_slice examples i (i + ?m) = take (nat ?m) (drop (nat i) examples)"
      using less.prems True assms(1) by (rule js_slice_window)
    have rest: "drop (nat (i + ?m)) examples = drop (nat ?m) (drop (nat i) examples)"
      using less.prems assms(1) by (simp add: nat_add_distrib add.commute)
    have "take (nat ?m) (drop (nat i) examples) @ drop (nat (i + ?m)) examples =
        drop (nat i) examples"
      unfolding rest by (rule append_take_drop_id)
    then have "map (generateTeacherOutput this send) (js_slice examples i (i + ?m)) @
        map (generateTeacherOutput this send) (drop (nat (i + ?m)) examples) =
        map (generateTeacherOutput this send) (drop (nat i) examples)"
      unfolding window by (metis map_append)
    with IH True show ?thesis
      by (subst distillExamples_loop.simps) simp
  qed
qed

text \<open>With a negative batch size the loop does not end on a non-empty input.\<close>

lemma distillExamples_loop_negative_step:
  assumes "distillExamples_loop this send examples i prompts = Some result"
  shows "\<not> (maxConcurrentRequests this < 0 \<and> i < int (length examples))"
proof (rule distillExamples_loop.raw_induct
    [where P = "\<lambda>this send examples i prompts result.
       \<not> (maxConcurrentRequests this < 0 \<and> i < int (length examples))", OF _ assms])
  fix loop this send examples i prompts result
  assume IH: "\<And>this send examples i prompts result.
      loop this send examples i prompts = Some result \<Longrightarrow>
      \<not> (maxConcurrentRequests this < 0 \<and> i < int (length examples))"
    and body: "(if i < int (length examples)
      then loop this send examples (i + maxConcurrentRequests this)
             (prompts @ map (generateTeacherOutput this send)
                (js_slice examples i (i + maxConcurrentRequests this)))
      else Some prompts) = Some (result :: PromptExample list)"
  show "\<not> (maxConcurrentRequests this < 0 \<and> i < int (length examples))"
  proof
    assume neg: "maxConcurrentRequests this < 0 \<and> i < int (length examples)"
    with body have "loop this send examples (i + maxConcurrentRequests this)
        (prompts @ map (generateTeacherOutput this send)
           (js_slice examples i (i + maxConcurrentRequests this))) = Some result"
      by simp
    from IH [OF this] neg show False by simp
  qed
qed

lemma distillExamples_never_returns:
  "maxConcurrentRequests this < 0 \<Longrightarrow> examples \<noteq> [] \<Longrightarrow>
   distillExamples this send examples = None"
  using distillExamples_loop_negative_step [of this send examples 0 "[]"]
  by (cases "distillExamples this send examples") (auto simp: distillExamples_def)

text \<open>The batch size the constructor sets: 5 by default, and the positive size given.\<close>

lemma new_DistillationService_batch_size:
  "maxConcurrentRequests (new_DistillationService tm None) = 5"
  "maxConcurrentRequests (new_DistillationService tm (Some 0)) = 5"
  "0 < n \<Longrightarrow> maxConcurrentRequests (new_DistillationService tm (Some n)) = n"
  by (simp_all add: new_DistillationService_def)

text \<open>The service \<open>main\<close> constructs (batch size 5) returns one example per record, so
  the count of examples equals the count of cleaned records.\<close>

lemma distillExamples_in_main:
  "distillExamples (new_DistillationService tm (Some 5)) send cleaned =
     Some (map (generateTeacherOutput (new_DistillationService tm (Some 5)) send) cleaned)"
  unfolding distillExamples_def
  using distillExamples_loop_returns
    [of "new_DistillationService tm (Some 5)" 0 send cleaned "[]"]
  by (simp add: new_DistillationService_def)

lemma generateTeacherOutput_completion:
  "completion (generateTeacherOutput this send example) =
     (case send (teacherCommand this example) of
        Replied None \<Rightarrow> title example
      | Replied (Some t) \<Rightarrow> if js_trim t = [] then title example else js_trim t
      | Threw message \<Rightarrow> title example)"
  by (simp add: generateTeacherOutput_def Let_def split: teacher_outcome.splits option.splits)

lemma generateTeacherOutput_error_note:
  "send (teacherCommand this example) = Threw message \<Longrightarrow>
   TrainingExample.metadata example ''teacherModelError'' = None \<Longrightarrow>
   PromptExample.metadata (generateTeacherOutput this send example) ''teacherModelError'' =
     Some (JString message)"
  by (simp add: generateTeacherOutput_def Let_def map_add_def)

text \<open>
  Claim C4, as the code has it. With a positive batch size (the constructor's default and
  the 5 that \<open>main\<close> passes), \<open>distillExamples\<close> returns, and returns exactly one example
  per input record, in input order. The example's completion is the teacher's trimmed
  text when the call succeeds and that text is not empty; it is the record's title when
  the trimmed text is empty, when the response has no text, and when the call throws. When
  the call throws and the record's metadata has no key \<open>teacherModelError\<close> of its own,
  the error text is recorded under \<open>teacherModelError\<close>. No outcome of a teacher call makes
  \<open>distillExamples\<close> fail.
\<close>

theorem distillExamples_one_example_per_record:
  assumes "0 < maxConcurrentRequests this"
  shows "distillExamples this send examples =
           Some (map (generateTeacherOutput this send) examples)
       \<and> (\<exists>prompts. distillExamples this send examples = Some prompts \<and>
            length prompts = length examples)
       \<and> completion (generateTeacherOutput this send example) =
           (case send (teacherCommand this example) of
              Replied None \<Rightarrow> title example
            | Replied (Some t) \<Rightarrow> if js_trim t = [] then title example else js_trim t
            | Threw message \<Rightarrow> title example)
       \<and> (\<forall>message. send (teacherCommand this example) = Threw message \<and>
            TrainingExample.metadata example ''teacherModelError'' = None \<longrightarrow>
            PromptExample.metadata (generateTeacherOutput this send example) ''teacherModelError'' =
              Some (JString message))"
proof -
  have "distillExamples this send examples =
      Some (map (generateTeacherOutput this send) examples)"
    unfolding distillExamples_def
    using distillExamples_loop_returns [OF assms, of 0 send examples "[]"] by simp
  then show ?thesis
    using generateTeacherOutput_completion [of this send example]
      generateTeacherOutput_error_note [of send this example]
    by simp
qed

text \<open>Three records in batches of two; the teacher throws for the second.\<close>

theorem distillExamples_one_example_per_record_witness:
  "0 < maxConcurrentRequests sample_service
   \<and> (\<exists>prompts.
        distillExamples sample_service flaky_teacher
          [sample_example ''a1'' ''First'' ''Body one'',
           sample_example ''a2'' ''Second'' ''Body # two'',
           sample_example ''a3'' ''Third'' ''Body three''] = Some prompts
        \<and> map completion prompts = [''Teacher headline'', ''Second'', ''Teacher headline''])
   \<and> PromptExample.metadata
        (generateTeacherOutput sample_service flaky_teacher
           (sample_example ''a2'' ''Second'' ''Body # two'')) ''teacherModelError'' =
       Some (JString ''timeout'')"
  using distillExamples_one_example_per_record
    [where this = sample_service and send = flaky_teacher
       and examples = "[sample_example ''a1'' ''First'' ''Body one'',
           sample_example ''a2'' ''Second'' ''Body # two'',
           sample_example ''a3'' ''Third'' ''Body three'']"
       and example = "sample_example ''a2'' ''Second'' ''Body # two''"]
  by (simp add: sample_service_def generateTeacherOutput_def teacherCommand_def
      createDistillationPrompt_def flaky_teacher_def sample_example_def js_trim_def
      is_js_space_def Let_def)

text \<open>
  The claim as stated fails twice. A teacher call that succeeds with a text of blanks
  gives the record's title, not the trimmed text; and a record whose own metadata has a key
  \<open>teacherModelError\<close> keeps its own value there when the call throws.
\<close>

theorem distill_target_counterexample:
  "blank_teacher (teacherCommand sample_service (sample_example ''a1'' ''Original title'' ''Body'')) =
     Replied (Some ''  '')
   \<and> completion (generateTeacherOutput sample_service blank_teacher
        (sample_example ''a1'' ''Original title'' ''Body'')) \<noteq> js_trim ''  ''
   \<and> failing_teacher (teacherCommand sample_service annotated_example) = Threw ''timeout''
   \<and> PromptExample.metadata (generateTeacherOutput sample_service failing_teacher annotated_example)
        ''teacherModelError'' \<noteq> Some (JString ''timeout'')"
  by (simp add: generateTeacherOutput_def blank_teacher_def failing_teacher_def
      sample_example_def annotated_example_def js_trim_def is_js_space_def Let_def)

text \<open>
  Claim C5. The prompt of the example produced for a record is the same for every
  teacher and every outcome of the teacher call, a failure as well as a success: it is
  the fixed text around the record's content cut to its first 500 code units (with
  \<open>...\<close> appended when something was cut) and the record's publication.
\<close>

theorem student_prompt_independent_of_teacher:
  "prompt (generateTeacherOutput this send example) =
     prompt (generateTeacherOutput this' send' example)
   \<and> prompt (generateTeacherOutput this send example) =
       ''Generate a headline for the following article:\<newline>\<newline>Article content:\<newline>'' @
       take 500 (content example) @ (if 500 < length (content example) then ''...'' else []) @
       ''\<newline>\<newline>Publication: '' @ publication example @
       ''\<newline>Style requirements: Editorial quality, SEO-optimized, engaging''"
  by (simp add: generateTeacherOutput_def createStudentPrompt_def Let_def
      split: teacher_outcome.splits)

text \<open>A call that throws and a call that succeeds, on the same record.\<close>

theorem student_prompt_independent_of_teacher_witness:
  "prompt (generateTeacherOutput sample_service failing_teacher
       (sample_example ''a1'' ''First'' ''Body one'')) =
   prompt (generateTeacherOutput sample_service flaky_teacher
       (sample_example ''a1'' ''First'' ''Body one''))"
  using student_prompt_independent_of_teacher
    [of sample_service failing_teacher "sample_example ''a1'' ''First'' ''Body one''"
        sample_service flaky_teacher]
  by simp

text \<open>
  Claim C10. Whatever key the record's own metadata has, the example's metadata has the
  record's value under it, whether the teacher call succeeds or throws: the provenance
  fields \<open>articleId\<close>, \<open>publication\<close>, \<open>publishedDate\<close>, \<open>originalTitle\<close>, \<open>teacherModel\<close>
  and \<open>teacherModelError\<close> are overwritten by a record that carries such a key.
\<close>

theorem record_metadata_overrides_provenance:
  "TrainingExample.metadata example k = Some v \<Longrightarrow>
   PromptExample.metadata (generateTeacherOutput this send example) k = Some v"
  by (simp add: generateTeacherOutput_def Let_def map_add_Some_iff split: teacher_outcome.splits)

text \<open>The recorded error note of a failed call is replaced by the record's own value.\<close>

theorem record_metadata_overrides_provenance_witness:
  "TrainingExample.metadata annotated_example ''teacherModelError'' =
     Some (JString ''from the source'')
   \<and> failing_teacher (teacherCommand sample_service annotated_example) = Threw ''timeout''
   \<and> PromptExample.metadata
        (generateTeacherOutput sample_service failing_teacher annotated_example)
        ''teacherModelError'' = Some (JString ''from the source'')"
  using record_metadata_overrides_provenance
    [of annotated_example "''teacherModelError''" "JString ''from the source''"
        sample_service failing_teacher]
  by (simp add: annotated_example_def failing_teacher_def)

section \<open>Duplicate elimination\<close>

lemma upt_filter_map_Suc:
  "map f (filter P [0..<Suc n]) =
     (if P 0 then [f 0] else []) @ map (\<lambda>i. f (Suc i)) (filter (\<lambda>i. P (Suc i)) [0..<n])"
proof -
  have "[0..<Suc n] = 0 # map Suc [0..<n]"
    by (simp add: upt_conv_Cons map_Suc_upt del: upt_Suc)
  then show ?thesis
    by (simp add: filter_map comp_def del: upt_Suc)
qed

text \<open>What the loop returns from any set and output so far: the elements pushed are
  those whose id is neither in the set at the start nor carried by an earlier element.\<close>

lemma filterDuplicates_loop_eq:
  "filterDuplicates_loop seen unique xs =
     (seen \<union> articleId ` set xs,
      unique @ map (\<lambda>i. xs ! i)
        (filter (\<lambda>i. articleId (xs ! i) \<notin> seen \<union> articleId ` set (take i xs)) [0..<length xs]))"
proof (induction xs arbitrary: seen unique)
  case Nil
  then show ?case by simp
next
  case (Cons x xs)
  show ?case
  proof (cases "articleId x \<in> seen")
    case True
    then have same: "\<And>a Q. (a \<notin> seen \<and> a \<noteq> articleId x \<and> Q) = (a \<notin> seen \<and> Q)"
      by auto
    from True show ?thesis
      by (simp add: Cons.IH upt_filter_map_Suc insert_absorb same del: upt_Suc)
  next
    case False
    then show ?thesis
      by (simp add: Cons.IH upt_filter_map_Suc conj_commute conj_left_commute del: upt_Suc)
  qed
qed

lemma filterDuplicates_loop_distinct:
  "distinct (map articleId unique) \<Longrightarrow> articleId ` set unique \<subseteq> seen \<Longrightarrow>
   distinct (map articleId (snd (filterDuplicates_loop seen unique xs)))"
proof (induction xs arbitrary: seen unique)
  case Nil
  then show ?case by simp
next
  case (Cons x xs)
  show ?case
  proof (cases "articleId x \<in> seen")
    case True
    then show ?thesis using Cons by simp
  next
    case False
    have "distinct (map articleId (unique @ [x]))"
      using False Cons.prems by auto
    moreover have "articleId ` set (unique @ [x]) \<subseteq> insert (articleId x) seen"
      using Cons.prems by auto
    ultimately show ?thesis
      using False Cons.IH [of "unique @ [x]" "insert (articleId x) seen"] by simp
  qed
qed

text \<open>
  Claim C6. For every input sequence, with or without repeated ids,
  \<open>filterDuplicates\<close> returns the elements that are the first of their id, in input
  order, so no id occurs twice in the result. The set of seen ids is emptied at the start
  of the call: the result is the same on every instance, whatever its set holds, also on
  an instance that has cleaned another sequence before; so is the result of
  \<open>cleanExamples\<close>.
\<close>

theorem filterDuplicates_first_occurrences:
  "snd (filterDuplicates this xs) = first_occurrences xs
   \<and> distinct (map articleId (snd (filterDuplicates this xs)))
   \<and> snd (filterDuplicates this xs) = snd (filterDuplicates this' xs)
   \<and> snd (filterDuplicates (fst (filterDuplicates this ys)) xs) = snd (filterDuplicates this xs)
   \<and> snd (cleanExamples convert (fst (cleanExamples convert this ys)) xs) =
       snd (cleanExamples convert this' xs)"
  using filterDuplicates_loop_distinct [of "[]" "{}" xs]
  by (simp add: cleanExamples_def filterDuplicates_def filterDuplicates_loop_eq
      first_occurrences_def Let_def split: prod.splits)

text \<open>The ids \<open>a1\<close>, \<open>a2\<close>, \<open>a1\<close>, \<open>a3\<close> on an instance that has seen \<open>a2\<close>: the first
  \<open>a1\<close> and the \<open>a2\<close> are kept.\<close>

theorem filterDuplicates_first_occurrences_witness:
  "snd (filterDuplicates \<lparr>seenArticleIds = {''a2''}\<rparr>
     [sample_example ''a1'' ''First'' ''Body one'', sample_example ''a2'' ''Second'' ''Body two'',
      sample_example ''a1'' ''Again'' ''Body one again'', sample_example ''a3'' ''Third'' ''Body three'']) =
   [sample_example ''a1'' ''First'' ''Body one'', sample_example ''a2'' ''Second'' ''Body two'',
    sample_example ''a3'' ''Third'' ''Body three'']"
  using filterDuplicates_first_occurrences
    [of "\<lparr>seenArticleIds = {''a2''}\<rparr>"
        "[sample_example ''a1'' ''First'' ''Body one'', sample_example ''a2'' ''Second'' ''Body two'',
          sample_example ''a1'' ''Again'' ''Body one again'', sample_example ''a3'' ''Third'' ''Body three'']"]
  by (simp add: first_occurrences_def sample_example_def upt_rec)


section \<open>Heuristic validation\<close>

lemma validate_example_verdict:
  "snd (validate_example e) =
     (50 \<le> length (content e) \<and> 5 \<le> length (title e) \<and>
      \<not> (allCapsRatio e > 8 / 10 \<and> 20 < length (title e)))"
  unfolding validate_example_def Let_def
  by (simp add: not_less)

lemma validate_example_warnings:
  "fst (validate_example e) =
     (if odd (quoteCount e)
      then [''Unbalanced quotes detected in example: '' @ take 50 (title e)] else [])"
  unfolding validate_example_def Let_def
  by (simp add: odd_iff_mod_2_eq_one)

text \<open>The class \<open>[A-Z]\<close> is the 26 letters \<open>A\<close> to \<open>Z\<close>.\<close>

lemma is_AZ_letters: "is_AZ c = (c \<in> set ''ABCDEFGHIJKLMNOPQRSTUVWXYZ'')"
proof
  assume "is_AZ c"
  then have "(of_char c :: nat) \<in> of_char ` set ''ABCDEFGHIJKLMNOPQRSTUVWXYZ''"
    unfolding is_AZ_def by simp presburger
  then obtain d where "d \<in> set ''ABCDEFGHIJKLMNOPQRSTUVWXYZ''" "(of_char c :: nat) = of_char d"
    by blast
  then show "c \<in> set ''ABCDEFGHIJKLMNOPQRSTUVWXYZ''"
    by (metis of_char_eq_iff)
next
  assume "c \<in> set ''ABCDEFGHIJKLMNOPQRSTUVWXYZ''"
  then show "is_AZ c"
    unfolding is_AZ_def by auto
qed

lemma count_AZ_letters:
  "count_AZ s = length (filter (\<lambda>c. c \<in> set ''ABCDEFGHIJKLMNOPQRSTUVWXYZ'') s)"
  unfolding count_AZ_def using is_AZ_letters by presburger

lemma quoteCount_marks:
  "quoteCount e =
     length (filter (\<lambda>c. c = CHR 0x22) (title e)) + length (filter (\<lambda>c. c = CHR 0x22) (content e))"
  by (simp add: quoteCount_def count_quotes_def)

text \<open>
  Claim C7, as the code has it. \<open>validateEntitiesAndQuotes\<close> keeps exactly the records
  whose body has at least 50 code units, whose title has at least 5, and for which it is
  not the case that the ratio of the count of the 26 letters \<open>A\<close> to \<open>Z\<close> in the title
  (what \<open>/[A-Z]/g\<close> matches; no other upper-case letter is counted) to the title's length
  exceeds 0.8 and the title is longer than 20. The verdict on a record does not read the
  count of quotation marks: an odd count of them in title and body adds a warning to the
  log and nothing else.
\<close>

theorem validateEntitiesAndQuotes_keeps:
  "snd (validateEntitiesAndQuotes examples) =
     filter (\<lambda>e. 50 \<le> length (content e) \<and> 5 \<le> length (title e) \<and>
                 \<not> (of_nat (length (filter (\<lambda>c. c \<in> set ''ABCDEFGHIJKLMNOPQRSTUVWXYZ'') (title e))) /
                      of_nat (length (title e)) > (8 / 10 :: rat)
                    \<and> 20 < length (title e))) examples
   \<and> snd (validate_example e) =
       (50 \<le> length (content e) \<and> 5 \<le> length (title e) \<and>
        \<not> (of_nat (length (filter (\<lambda>c. c \<in> set ''ABCDEFGHIJKLMNOPQRSTUVWXYZ'') (title e))) /
             of_nat (length (title e)) > (8 / 10 :: rat)
           \<and> 20 < length (title e)))
   \<and> fst (validate_example e) =
       (if odd (length (filter (\<lambda>c. c = CHR 0x22) (title e)) +
                length (filter (\<lambda>c. c = CHR 0x22) (content e)))
        then [''Unbalanced quotes detected in example: '' @ take 50 (title e)] else [])"
  unfolding validateEntitiesAndQuotes_def snd_conv validate_example_verdict
    validate_example_warnings allCapsRatio_def count_AZ_letters quoteCount_marks
  by simp

text \<open>
  Six records with a body of 58 code units. The one with a quotation mark is kept, with
  a warning. Of three titles of 25 code units, the one with 20 letters \<open>A\<close> to \<open>Z\<close> (ratio
  0.8) is kept, the one with 21 (ratio 0.84) is dropped; the title of 24 such letters is
  dropped, the title of 24 capital E with acute accent is kept, and so is a title of 20
  letters \<open>A\<close> to \<open>Z\<close> and nothing else.
\<close>

theorem validateEntitiesAndQuotes_keeps_witness:
  \<open>snd (validateEntitiesAndQuotes
      [quoted_example, shouting_example, mixed_example, loud_example, accented_example,
       brief_shout_example]) =
     [quoted_example, mixed_example, accented_example, brief_shout_example]
   \<and> fst (validate_example quoted_example) =
       [''Unbalanced quotes detected in example: He said "stop'']
   \<and> fst (validate_example mixed_example) = []\<close>
proof -
  have kept: "snd (validate_example quoted_example)" "snd (validate_example mixed_example)"
      "snd (validate_example accented_example)" "snd (validate_example brief_shout_example)"
    and dropped: "\<not> snd (validate_example shouting_example)"
      "\<not> snd (validate_example loud_example)"
    and warnings: \<open>fst (validate_example quoted_example) =
        [''Unbalanced quotes detected in example: He said "stop'']\<close>
      "fst (validate_example mixed_example) = []"
    using validateEntitiesAndQuotes_keeps [of "[]" quoted_example]
      validateEntitiesAndQuotes_keeps [of "[]" mixed_example]
      validateEntitiesAndQuotes_keeps [of "[]" accented_example]
      validateEntitiesAndQuotes_keeps [of "[]" brief_shout_example]
      validateEntitiesAndQuotes_keeps [of "[]" shouting_example]
      validateEntitiesAndQuotes_keeps [of "[]" loud_example]
    by (simp_all add: quoted_example_def shouting_example_def mixed_example_def
        loud_example_def accented_example_def brief_shout_example_def sample_example_def)
  then show ?thesis
    by (simp add: validateEntitiesAndQuotes_def)
qed

text \<open>
  The claim as stated fails: every code unit of the title of 24 capital E with acute
  accent is an upper-case letter, so the ratio of upper-case letters to the title's length
  is 1 and the title is longer than 20; the record is kept all the same.
\<close>

theorem validateEntitiesAndQuotes_upper_case_counterexample:
  "length (filter is_upper_case_letter (title accented_example)) = length (title accented_example)
   \<and> length (title accented_example) = 24
   \<and> \<not> keeps_as_specified accented_example
   \<and> snd (validateEntitiesAndQuotes [accented_example]) = [accented_example]"
  by (simp add: keeps_as_specified_def is_upper_case_letter_def accented_example_def
      sample_example_def validateEntitiesAndQuotes_def validate_example_def allCapsRatio_def
      count_AZ_def is_AZ_def Let_def)


section \<open>The dataset writer\<close>

lemma split_on_no_separator: "c \<notin> set s \<Longrightarrow> split_on c s = [s]"
  by (induction s) auto

lemma split_on_append_separator:
  "c \<notin> set s \<Longrightarrow> split_on c (s @ c # rest) = s # split_on c rest"
  by (induction s) (auto split: list.splits)

text \<open>Joining pieces that do not contain the separator and splitting again gives the
  pieces back, when there is at least one.\<close>

lemma split_on_js_join:
  "\<forall>s \<in> set parts. c \<notin> set s \<Longrightarrow> parts \<noteq> [] \<Longrightarrow> split_on c (js_join [c] parts) = parts"
proof (induction "[c]" parts rule: js_join.induct)
  case 1
  then show ?case by simp
next
  case (2 x)
  then show ?case by (simp add: split_on_no_separator)
next
  case (3 x y ys)
  then show ?case by (simp add: split_on_append_separator)
qed

text \<open>
  Claim C8. For a non-empty list of examples and a serializer that writes no line break
  (as \<open>JSON.stringify\<close> without indentation does): the body of the one command sent to the
  store is the serialized examples joined by line breaks, so its lines are the serialized
  examples, one line per example and in order; the command's bucket is the configured
  bucket and its key is \<open>datasets/\<close>, the publication id (or \<open>all\<close> when it is absent or
  empty), \<open>/\<close>, the submission time, \<open>-\<close>, the run id, \<open>/training-data.jsonl\<close>. What
  \<open>saveTrainingDataset\<close> returns is decided by the store's answer to that command: when the
  store refuses it, the error is passed on and no descriptor is returned; when the store
  accepts it, the descriptor has the number of examples as its count, the submission time,
  \<open>-\<close> and the run id as its version, and \<open>s3://\<close>, the bucket, \<open>/\<close> and that key as its
  location.
\<close>

theorem saveTrainingDataset_descriptor:
  assumes "prompts \<noteq> []"
    and "\<forall>p. CHR ''\<newline>'' \<notin> set (stringify p)"
  shows "Body (saveTrainingDataset_command stringify now prompts config) =
           js_join ''\<newline>'' (map stringify prompts)
       \<and> split_on CHR ''\<newline>'' (Body (saveTrainingDataset_command stringify now prompts config)) =
           map stringify prompts
       \<and> length (split_on CHR ''\<newline>''
            (Body (saveTrainingDataset_command stringify now prompts config))) = length prompts
       \<and> Bucket (saveTrainingDataset_command stringify now prompts config) =
           trainingDataBucket config
       \<and> Key (saveTrainingDataset_command stringify now prompts config) =
           ''datasets/'' @
           (case publicationId config of None \<Rightarrow> ''all'' | Some p \<Rightarrow> if p = [] then ''all'' else p) @
           ''/'' @ int_toString now @ ''-'' @ trainingRunId config @ ''/training-data.jsonl''
       \<and> saveTrainingDataset stringify s3send now now' prompts config =
           (case s3send (saveTrainingDataset_command stringify now prompts config) of
              Some err \<Rightarrow> Inl err
            | None \<Rightarrow>
                Inr \<lparr>promptCount = length prompts,
                     s3Location = ''s3://'' @ trainingDataBucket config @ ''/datasets/'' @
                       (case publicationId config of
                          None \<Rightarrow> ''all'' | Some p \<Rightarrow> if p = [] then ''all'' else p) @
                       ''/'' @ int_toString now @ ''-'' @ trainingRunId config @
                       ''/training-data.jsonl'',
                     datasetVersion = int_toString now @ ''-'' @ trainingRunId config,
                     processingTime = now'\<rparr>)"
proof -
  have lines: "split_on CHR ''\<newline>'' (js_join ''\<newline>'' (map stringify prompts)) =
      map stringify prompts"
    using assms(1,2) by (intro split_on_js_join) auto
  have body: "Body (saveTrainingDataset_command stringify now prompts config) =
      js_join ''\<newline>'' (map stringify prompts)"
    by (simp add: saveTrainingDataset_command_def Let_def)
  have bucket: "Bucket (saveTrainingDataset_command stringify now prompts config) =
      trainingDataBucket config"
    by (simp add: saveTrainingDataset_command_def Let_def)
  have key: "Key (saveTrainingDataset_command stringify now prompts config) =
      ''datasets/'' @
      (case publicationId config of None \<Rightarrow> ''all'' | Some p \<Rightarrow> if p = [] then ''all'' else p) @
      ''/'' @ int_toString now @ ''-'' @ trainingRunId config @ ''/training-data.jsonl''"
    by (simp add: saveTrainingDataset_command_def publicationId_or_all_def Let_def)
  have res: "saveTrainingDataset stringify s3send now now' prompts config =
      (case s3send (saveTrainingDataset_command stringify now prompts config) of
         Some err \<Rightarrow> Inl err
       | None \<Rightarrow>
           Inr \<lparr>promptCount = length prompts,
                s3Location = ''s3://'' @ trainingDataBucket config @ ''/datasets/'' @
                  (case publicationId config of
                     None \<Rightarrow> ''all'' | Some p \<Rightarrow> if p = [] then ''all'' else p) @
                  ''/'' @ int_toString now @ ''-'' @ trainingRunId config @
                  ''/training-data.jsonl'',
                datasetVersion = int_toString now @ ''-'' @ trainingRunId config,
                processingTime = now'\<rparr>)"
    unfolding saveTrainingDataset_def Let_def key by (simp split: option.splits)
  from lines body bucket key res show ?thesis by (simp only: simp_thms length_map)
qed

text \<open>
  Two examples written at time 42 in run \<open>run-1\<close>. For the publication \<open>pub-7\<close>, a store
  that accepts the write and a store that refuses the key under \<open>pub-7\<close>; without a
  publication filter the key is under \<open>all\<close>, which the second store accepts.
\<close>

theorem saveTrainingDataset_descriptor_witness:
  "[sample_prompt ''One'', sample_prompt ''Two''] \<noteq> []
   \<and> (\<forall>p. CHR ''\<newline>'' \<notin> set (sample_stringify p))
   \<and> Body (saveTrainingDataset_command sample_stringify 42
        [sample_prompt ''One'', sample_prompt ''Two''] publication_config) =
       ''{completion:One}\<newline>{completion:Two}''
   \<and> split_on CHR ''\<newline>'' (Body (saveTrainingDataset_command sample_stringify 42
        [sample_prompt ''One'', sample_prompt ''Two''] publication_config)) =
       [''{completion:One}'', ''{completion:Two}'']
   \<and> Key (saveTrainingDataset_command sample_stringify 42
        [sample_prompt ''One'', sample_prompt ''Two''] publication_config) =
       ''datasets/pub-7/42-run-1/training-data.jsonl''
   \<and> saveTrainingDataset sample_stringify s3_accepts 42 43
        [sample_prompt ''One'', sample_prompt ''Two''] publication_config =
       Inr \<lparr>promptCount = 2,
            s3Location = ''s3://bucket/datasets/pub-7/42-run-1/training-data.jsonl'',
            datasetVersion = ''42-run-1'', processingTime = 43\<rparr>
   \<and> saveTrainingDataset sample_stringify
        (s3_rejects_key ''datasets/pub-7/42-run-1/training-data.jsonl'') 42 43
        [sample_prompt ''One'', sample_prompt ''Two''] publication_config =
       Inl ''AccessDenied''
   \<and> saveTrainingDataset sample_stringify
        (s3_rejects_key ''datasets/pub-7/42-run-1/training-data.jsonl'') 42 43
        [sample_prompt ''One'', sample_prompt ''Two''] sample_config =
       Inr \<lparr>promptCount = 2,
            s3Location = ''s3://bucket/datasets/all/42-run-1/training-data.jsonl'',
            datasetVersion = ''42-run-1'', processingTime = 43\<rparr>"
proof -
  have h1: "[sample_prompt ''One'', sample_prompt ''Two''] \<noteq> []" by simp
  have h2: "\<forall>p. CHR ''\<newline>'' \<notin> set (sample_stringify p)"
    by (simp add: sample_stringify_def)
  note accepted = saveTrainingDataset_descriptor
    [where prompts = "[sample_prompt ''One'', sample_prompt ''Two'']"
       and stringify = sample_stringify and ?s3send = s3_accepts and now = 42 and now' = 43
       and config = publication_config, OF h1 h2]
  note refused = saveTrainingDataset_descriptor
    [where prompts = "[sample_prompt ''One'', sample_prompt ''Two'']"
       and stringify = sample_stringify
       and ?s3send = "s3_rejects_key ''datasets/pub-7/42-run-1/training-data.jsonl''"
       and now = 42 and now' = 43 and config = publication_config, OF h1 h2]
  note unfiltered = saveTrainingDataset_descriptor
    [where prompts = "[sample_prompt ''One'', sample_prompt ''Two'']"
       and stringify = sample_stringify
       and ?s3send = "s3_rejects_key ''datasets/pub-7/42-run-1/training-data.jsonl''"
       and now = 42 and now' = 43 and config = sample_config, OF h1 h2]
  show ?thesis
    using h1 h2 accepted refused unfiltered
    by (simp add: sample_stringify_def sample_prompt_def sample_config_def
        publication_config_def s3_accepts_def s3_rejects_key_def int_toString_42)
qed


section \<open>Job and model names\<close>

text \<open>
  Claim C9, as the code has it. The job name is \<open>training-\<close>, the run id, \<open>-\<close> and the
  stage: it does not contain the submission time. The model name is \<open>custom-model-\<close>, the
  publication id or \<open>all\<close>, \<open>-\<close>, the stage, \<open>-\<close> and the submission time in
  milliseconds: it does not contain the run id. In one environment (one stage), two
  submissions have the same job name exactly when their run ids are equal, and two
  submissions for the same publication have the same model name exactly when their
  submission times are equal.
\<close>

theorem job_and_model_names:
  "jobName (createModelCustomizationJob_command env now config result bedrockConfig) =
     ''training-'' @ trainingRunId config @ ''-'' @ env_or env ''STAGE'' ''dev''
   \<and> customModelName (createModelCustomizationJob_command env now config result bedrockConfig) =
     ''custom-model-'' @ publicationId_or_all config @ ''-'' @ env_or env ''STAGE'' ''dev'' @ ''-'' @
     int_toString now
   \<and> ((jobName (createModelCustomizationJob_command env now config result bedrockConfig) =
        jobName (createModelCustomizationJob_command env now' config' result' bedrockConfig'))
      = (trainingRunId config = trainingRunId config'))
   \<and> (publicationId_or_all config = publicationId_or_all config' \<longrightarrow>
      ((customModelName (createModelCustomizationJob_command env now config result bedrockConfig) =
        customModelName (createModelCustomizationJob_command env now' config' result' bedrockConfig'))
      = (now = now')))"
  using int_toString_inj [of now now']
  by (auto simp: createModelCustomizationJob_command_def Let_def)

text \<open>Two runs with different run ids, submitted at different times for the same
  publication: both names differ.\<close>

theorem job_and_model_names_witness:
  "publicationId_or_all sample_config =
     publicationId_or_all (sample_config\<lparr>trainingRunId := ''run-2''\<rparr>)
   \<and> jobName (createModelCustomizationJob_command empty_env 1000 sample_config
        sample_result sample_bedrockConfig) \<noteq>
     jobName (createModelCustomizationJob_command empty_env 2000
        (sample_config\<lparr>trainingRunId := ''run-2''\<rparr>) sample_result sample_bedrockConfig)
   \<and> customModelName (createModelCustomizationJob_command empty_env 1000 sample_config
        sample_result sample_bedrockConfig) \<noteq>
     customModelName (createModelCustomizationJob_command empty_env 2000
        (sample_config\<lparr>trainingRunId := ''run-2''\<rparr>) sample_result sample_bedrockConfig)"
proof -
  have pub: "publicationId_or_all sample_config =
      publicationId_or_all (sample_config\<lparr>trainingRunId := ''run-2''\<rparr>)"
    by (simp add: publicationId_or_all_def)
  have rid: "trainingRunId sample_config \<noteq>
      trainingRunId (sample_config\<lparr>trainingRunId := ''run-2''\<rparr>)"
    by (simp add: sample_config_def)
  have time: "(1000 :: int) \<noteq> 2000" by simp
  note t = job_and_model_names
    [of empty_env 1000 sample_config sample_result sample_bedrockConfig
        2000 "sample_config\<lparr>trainingRunId := ''run-2''\<rparr>" sample_result sample_bedrockConfig]
  from t rid have job: "jobName (createModelCustomizationJob_command empty_env 1000 sample_config
        sample_result sample_bedrockConfig) \<noteq>
     jobName (createModelCustomizationJob_command empty_env 2000
        (sample_config\<lparr>trainingRunId := ''run-2''\<rparr>) sample_result sample_bedrockConfig)"
    by blast
  from t pub time have model: "customModelName (createModelCustomizationJob_command empty_env 1000
        sample_config sample_result sample_bedrockConfig) \<noteq>
     customModelName (createModelCustomizationJob_command empty_env 2000
        (sample_config\<lparr>trainingRunId := ''run-2''\<rparr>) sample_result sample_bedrockConfig)"
    by blast
  from pub job model show ?thesis by blast
qed

text \<open>
  The claim as stated fails: the same run id submitted again at another time has the
  same job name, and two runs with different run ids submitted in the same millisecond
  have the same model name.
\<close>

theorem job_and_model_names_counterexample:
  "jobName (createModelCustomizationJob_command empty_env 1000 sample_config
        sample_result sample_bedrockConfig) =
   jobName (createModelCustomizationJob_command empty_env 2000 sample_config
        sample_result sample_bedrockConfig)
   \<and> customModelName (createModelCustomizationJob_command empty_env 1000 sample_config
        sample_result sample_bedrockConfig) =
     customModelName (createModelCustomizationJob_command empty_env 1000
        (sample_config\<lparr>trainingRunId := ''run-2''\<rparr>) sample_result sample_bedrockConfig)
   \<and> trainingRunId sample_config \<noteq> trainingRunId (sample_config\<lparr>trainingRunId := ''run-2''\<rparr>)"
  by (simp add: createModelCustomizationJob_command_def sample_config_def
      publicationId_or_all_def Let_def)

end
